theory Spec2Isabelle
  imports Main "HOL-Library.AList" "HOL-Library.Option_ord"
begin

section \<open>Values, documents and exceptions\<close>

text \<open>
  The handlers of \<^verbatim>\<open>main.py\<close> work on Python dictionaries: request documents,
  MongoDB documents, token payloads and JSON responses. A dictionary is an association
  list in insertion order; its values are the Python values that occur in the program:
  \<^verbatim>\<open>None\<close>, booleans, integers, strings, \<^verbatim>\<open>datetime\<close> (microseconds since
  the epoch), \<^verbatim>\<open>ObjectId\<close> (its 24 hexadecimal digits), nested dictionaries and
  lists.
\<close>

datatype pyval =
    PNone
  | PBool bool
  | PInt int
  | PStr string
  | PTime int
  | PId string
  | PDict "(string \<times> pyval) list"
  | PList "pyval list"

type_synonym doc = "(string \<times> pyval) list"

text \<open>
  Exceptions are values. \<open>HTTPException\<close> carries the status code and the detail;
  \<open>LibError\<close> is an exception class raised inside passlib or PyJWT, by name.
  All of them derive from Python's \<^verbatim>\<open>Exception\<close>.
\<close>

datatype exn =
    HTTPException nat string
  | ValueError string
  | KeyError string
  | TypeError string
  | LibError string

definition bind :: "exn + 'a \<Rightarrow> ('a \<Rightarrow> exn + 'b) \<Rightarrow> exn + 'b" where
  "bind m f = (case m of Inl e \<Rightarrow> Inl e | Inr x \<Rightarrow> f x)"

text \<open>
  What the client sees: FastAPI answers an \<open>HTTPException\<close> with its status code and
  any other exception that leaves a handler with 500.
\<close>

definition status_code :: "exn + 'a \<Rightarrow> nat" where
  "status_code r = (case r of Inr _ \<Rightarrow> 200 | Inl (HTTPException c _) \<Rightarrow> c | Inl _ \<Rightarrow> 500)"

text \<open>Python truthiness, as \<^verbatim>\<open>if not x\<close> tests it.\<close>

fun truthy :: "pyval \<Rightarrow> bool" where
  "truthy PNone = False"
| "truthy (PBool b) = b"
| "truthy (PInt i) = (i \<noteq> 0)"
| "truthy (PStr s) = (s \<noteq> [])"
| "truthy (PTime t) = True"
| "truthy (PId h) = True"
| "truthy (PDict d) = (d \<noteq> [])"
| "truthy (PList xs) = (xs \<noteq> [])"

text \<open>\<^verbatim>\<open>d.get(k, default)\<close> and \<^verbatim>\<open>d[k]\<close>, which raises \<^verbatim>\<open>KeyError\<close>.\<close>

definition py_get :: "doc \<Rightarrow> string \<Rightarrow> pyval \<Rightarrow> pyval" where
  "py_get d k dflt = (case map_of d k of None \<Rightarrow> dflt | Some v \<Rightarrow> v)"

definition py_item :: "doc \<Rightarrow> string \<Rightarrow> exn + pyval" where
  "py_item d k = (case map_of d k of None \<Rightarrow> Inl (KeyError k) | Some v \<Rightarrow> Inr v)"

text \<open>\<^verbatim>\<open>timedelta(minutes=n)\<close> in microseconds, the resolution of \<^verbatim>\<open>datetime\<close>.\<close>

definition timedelta_minutes :: "int \<Rightarrow> int" where
  "timedelta_minutes n = n * 60000000"

section \<open>Strings: \<^verbatim>\<open>str.split()\<close> and \<^verbatim>\<open>str.lower()\<close>\<close>

text \<open>
  A header value reaches the handler decoded as Latin-1, one character per byte. The
  characters for which \<^verbatim>\<open>str.isspace\<close> holds in that range are 9 to 13, 28 to 32,
  133 and 160; \<^verbatim>\<open>split()\<close> without argument splits at runs of them and drops
  empty words.
\<close>

definition is_space :: "char \<Rightarrow> bool" where
  "is_space c = ((of_char c :: nat) \<in> {9, 10, 11, 12, 13, 28, 29, 30, 31, 32, 133, 160})"

fun split_from :: "string \<Rightarrow> string \<Rightarrow> string list" where
  "split_from cur [] = (if cur = [] then [] else [cur])"
| "split_from cur (c # cs) =
     (if is_space c then (if cur = [] then split_from [] cs else cur # split_from [] cs)
      else split_from (cur @ [c]) cs)"

definition py_split :: "string \<Rightarrow> string list" where
  "py_split s = split_from [] s"

text \<open>
  \<^verbatim>\<open>str.lower()\<close> on Latin-1: A to Z and the accented capitals 192 to 222 (but the
  multiplication sign 215) move up by 32.
\<close>

definition lower_char :: "char \<Rightarrow> char" where
  "lower_char c =
     (let n = (of_char c :: nat)
      in if (65 \<le> n \<and> n \<le> 90) \<or> (192 \<le> n \<and> n \<le> 222 \<and> n \<noteq> 215) then char_of (n + 32) else c)"

definition py_lower :: "string \<Rightarrow> string" where
  "py_lower s = map lower_char s"

section \<open>The environment of the process\<close>

text \<open>
  What \<^verbatim>\<open>main.py\<close> takes from outside its own text is a parameter of the model:
  the signing secret \<^verbatim>\<open>JWT_SECRET\<close>, the bcrypt handler behind
  \<^verbatim>\<open>pwd_context\<close> (hashing with a given salt; verification of a digest it
  recognises, which may raise on a malformed one), the signing layer of PyJWT for
  HS256 (\<open>jws_encode\<close> serialises a JSON payload and signs it under a key,
  \<open>jws_decode\<close> checks the signature under a key and returns the payload or raises),
  and \<^verbatim>\<open>str()\<close> of the values that are neither strings nor ObjectIds. At every call
  of \<^verbatim>\<open>jwt.encode\<close> in the program the claims are strings and the expiry a datetime,
  for which the library does not raise.
\<close>

record env =
  jwt_secret :: string
  crypt_hash :: "string \<Rightarrow> string \<Rightarrow> string"
  crypt_verify :: "string \<Rightarrow> string \<Rightarrow> exn + bool"
  jws_encode :: "doc \<Rightarrow> string \<Rightarrow> string"
  jws_decode :: "string \<Rightarrow> string \<Rightarrow> exn + doc"
  str_other :: "pyval \<Rightarrow> string"

text \<open>
  What varies from one request to the next: the value each \<^verbatim>\<open>datetime.now\<close>
  call returns, the salt each \<^verbatim>\<open>pwd_context.hash\<close> call draws and the ObjectId
  each \<^verbatim>\<open>insert_one\<close> assigns. The calls of a handler are numbered from 0 in the
  order of its text; no handler loops over one, so each number is used at most once
  in a request.
\<close>

record runtime =
  now :: "nat \<Rightarrow> int"
  salt :: "nat \<Rightarrow> string"
  oid :: "nat \<Rightarrow> string"

definition py_str :: "env \<Rightarrow> pyval \<Rightarrow> string" where
  "py_str E v = (case v of PStr s \<Rightarrow> s | PId h \<Rightarrow> h | _ \<Rightarrow> str_other E v)"

section \<open>Helpers of \<^verbatim>\<open>main.py\<close>\<close>

definition hash_password :: "env \<Rightarrow> string \<Rightarrow> string \<Rightarrow> string" where
  "hash_password E s password = crypt_hash E s password"

text \<open>
  \<^verbatim>\<open>pwd_context = CryptContext(schemes=["bcrypt"])\<close>. Its \<^verbatim>\<open>verify\<close> returns
  False for the hash \<^verbatim>\<open>None\<close>, raises \<^verbatim>\<open>TypeError\<close> for a hash that is not a
  string, and otherwise looks for a configured scheme that identifies the hash: bcrypt
  identifies a string that starts with one of its five prefixes. A string no scheme
  identifies raises \<^verbatim>\<open>UnknownHashError\<close>; an identified one goes to the bcrypt
  handler.
\<close>

definition bcrypt_identify :: "string \<Rightarrow> bool" where
  "bcrypt_identify h =
     list_ex (\<lambda>i. take (length i) h = i) [''$2$'', ''$2a$'', ''$2x$'', ''$2y$'', ''$2b$'']"

definition pwd_context_verify :: "env \<Rightarrow> string \<Rightarrow> pyval \<Rightarrow> exn + bool" where
  "pwd_context_verify E secret h =
     (case h of
        PNone \<Rightarrow> Inr False
      | PStr s \<Rightarrow>
          if bcrypt_identify s then crypt_verify E secret s
          else Inl (LibError ''passlib.exc.UnknownHashError'')
      | _ \<Rightarrow> Inl (TypeError ''hash must be unicode or bytes''))"

definition verify_password :: "env \<Rightarrow> string \<Rightarrow> pyval \<Rightarrow> exn + bool" where
  "verify_password E plain hashed = pwd_context_verify E plain hashed"

text \<open>
  What PyJWT does with the expiry. \<^verbatim>\<open>jwt.encode\<close> replaces a \<^verbatim>\<open>datetime\<close> under
  \<^verbatim>\<open>exp\<close> by \<^verbatim>\<open>timegm(exp.utctimetuple())\<close>, the whole seconds since the epoch:
  the microseconds are dropped. \<^verbatim>\<open>jwt.decode\<close> checks the signature and then, when
  the payload has an \<^verbatim>\<open>exp\<close>, raises \<^verbatim>\<open>ExpiredSignatureError\<close> if
  \<^verbatim>\<open>exp <= now\<close>, where \<^verbatim>\<open>now\<close> is the library's own reading of the clock in
  seconds; with the reading \<open>t\<close> in microseconds that is \<open>exp * 1000000 \<le> t\<close>,
  whether the library keeps the fraction of the second or drops it. On an
  \<^verbatim>\<open>exp\<close> that is not an integer the library calls \<^verbatim>\<open>int()\<close> and raises when
  that fails; the model refuses every such value, which differs only for a boolean or
  a numeric string under \<^verbatim>\<open>exp\<close>, and \<^verbatim>\<open>create_jwt\<close> always puts a datetime
  there. The program signs no other registered claim (\<^verbatim>\<open>iat\<close>, \<^verbatim>\<open>nbf\<close>,
  \<^verbatim>\<open>aud\<close>, \<^verbatim>\<open>iss\<close>), and the model leaves them out.
\<close>

definition timegm :: "int \<Rightarrow> int" where
  "timegm t = t div 1000000"

fun numeric_date :: "pyval \<Rightarrow> pyval" where
  "numeric_date (PTime t) = PInt (timegm t)"
| "numeric_date v = v"

definition jwt_encode :: "env \<Rightarrow> doc \<Rightarrow> string \<Rightarrow> string" where
  "jwt_encode E payload key =
     jws_encode E (map (\<lambda>(k, v). (k, if k = ''exp'' then numeric_date v else v)) payload) key"

definition validate_exp :: "doc \<Rightarrow> int \<Rightarrow> exn + doc" where
  "validate_exp payload t =
     (case map_of payload ''exp'' of
        None \<Rightarrow> Inr payload
      | Some (PInt e) \<Rightarrow>
          if e * 1000000 \<le> t then Inl (LibError ''jwt.ExpiredSignatureError'') else Inr payload
      | Some _ \<Rightarrow> Inl (LibError ''jwt.DecodeError''))"

definition jwt_decode :: "env \<Rightarrow> string \<Rightarrow> string \<Rightarrow> int \<Rightarrow> exn + doc" where
  "jwt_decode E token key t = bind (jws_decode E token key) (\<lambda>payload. validate_exp payload t)"

text \<open>\<open>t\<close> is the value of the \<^verbatim>\<open>datetime.now\<close> call inside \<^verbatim>\<open>create_jwt\<close>.\<close>

definition create_jwt :: "env \<Rightarrow> int \<Rightarrow> doc \<Rightarrow> int \<Rightarrow> string" where
  "create_jwt E t payload expires_minutes =
     (let exp = t + timedelta_minutes expires_minutes;
          to_encode = AList.update ''exp'' (PTime exp) payload
      in jwt_encode E to_encode (jwt_secret E))"

definition decode_jwt :: "env \<Rightarrow> int \<Rightarrow> string \<Rightarrow> exn + doc" where
  "decode_jwt E t token = jwt_decode E token (jwt_secret E) t"

text \<open>
  The body of the \<^verbatim>\<open>try\<close> block of \<^verbatim>\<open>get_current_user\<close>: unpacking the split
  header into two names raises \<^verbatim>\<open>ValueError\<close> unless it has exactly two words.
\<close>

definition checked_payload :: "env \<Rightarrow> runtime \<Rightarrow> string \<Rightarrow> exn + doc" where
  "checked_payload E rt authorization =
     (case py_split authorization of
        [scheme, token] \<Rightarrow>
          if py_lower scheme \<noteq> ''bearer'' then Inl (ValueError ''Invalid auth scheme'')
          else bind (decode_jwt E (now rt 0) token) (\<lambda>payload.
            let user_id = py_get payload ''user_id'' PNone;
                email = py_get payload ''email'' PNone
            in if \<not> truthy user_id \<or> \<not> truthy email
               then Inl (ValueError ''Invalid token payload'')
               else Inr payload)
      | _ \<Rightarrow> Inl (ValueError ''not enough or too many values to unpack''))"

definition get_current_user :: "env \<Rightarrow> runtime \<Rightarrow> string option \<Rightarrow> exn + doc" where
  "get_current_user E rt authorization =
     (case authorization of
        None \<Rightarrow> Inl (HTTPException 401 ''Missing Authorization header'')
      | Some a \<Rightarrow>
          if a = [] then Inl (HTTPException 401 ''Missing Authorization header'')
          else (case checked_payload E rt a of
                  Inl e \<Rightarrow> Inl (HTTPException 401 ''Invalid or expired token'')
                | Inr payload \<Rightarrow> Inr payload))"

section \<open>The document store\<close>

text \<open>
  The three collections the handlers touch, each a list of documents in insertion
  order. \<^verbatim>\<open>db\<close> comes from a module outside \<^verbatim>\<open>main.py\<close>; the operations are
  those of the MongoDB driver, on documents whose fields hold scalars as
  \<^verbatim>\<open>schemas.py\<close> declares them: a filter \<^verbatim>\<open>{k: v}\<close> matches a document whose
  field \<open>k\<close> equals \<open>v\<close>, and no collection carries a unique index. A document is
  read back as it was written; in particular a stored datetime compares with a
  reading of the clock.
\<close>

record store =
  users :: "doc list"
  otp_codes :: "doc list"
  conversations :: "doc list"

definition matches :: "string \<Rightarrow> pyval \<Rightarrow> doc \<Rightarrow> bool" where
  "matches k v d = (map_of d k = Some v)"

definition find_one :: "doc list \<Rightarrow> string \<Rightarrow> pyval \<Rightarrow> doc option" where
  "find_one coll k v = List.find (matches k v) coll"

text \<open>\<^verbatim>\<open>insert_one\<close> stores the document under a new \<^verbatim>\<open>_id\<close>.\<close>

definition insert_one :: "doc list \<Rightarrow> string \<Rightarrow> doc \<Rightarrow> doc list" where
  "insert_one coll new_id d = coll @ [(''_id'', PId new_id) # d]"

text \<open>\<^verbatim>\<open>update_one(filter, {"$set": changes})\<close> changes the first document that matches.\<close>

definition set_fields :: "doc \<Rightarrow> doc \<Rightarrow> doc" where
  "set_fields changes d = foldl (\<lambda>acc kv. AList.update (fst kv) (snd kv) acc) d changes"

fun update_one :: "doc list \<Rightarrow> string \<Rightarrow> pyval \<Rightarrow> doc \<Rightarrow> doc list" where
  "update_one [] k v changes = []"
| "update_one (d # ds) k v changes =
     (if matches k v d then set_fields changes d # ds else d # update_one ds k v changes)"

text \<open>
  Sorting by a timestamp field, descending. The key of a document is its datetime, or
  nothing when the field is missing or null, which sorts below every datetime. The
  sort is stable: documents with equal keys stay in insertion order.
\<close>

definition time_key :: "string \<Rightarrow> doc \<Rightarrow> int option" where
  "time_key f d = (case map_of d f of Some (PTime t) \<Rightarrow> Some t | _ \<Rightarrow> None)"

fun insert_desc :: "string \<Rightarrow> doc \<Rightarrow> doc list \<Rightarrow> doc list" where
  "insert_desc f d [] = [d]"
| "insert_desc f d (x # xs) =
     (if time_key f x \<le> time_key f d then d # x # xs else x # insert_desc f d xs)"

definition sort_desc :: "string \<Rightarrow> doc list \<Rightarrow> doc list" where
  "sort_desc f ds = foldr (insert_desc f) ds []"

definition find_sorted :: "doc list \<Rightarrow> string \<Rightarrow> pyval \<Rightarrow> string \<Rightarrow> doc list" where
  "find_sorted coll k v f = sort_desc f (filter (matches k v) coll)"

definition find_one_sorted :: "doc list \<Rightarrow> string \<Rightarrow> pyval \<Rightarrow> string \<Rightarrow> doc option" where
  "find_one_sorted coll k v f = (case find_sorted coll k v f of [] \<Rightarrow> None | d # _ \<Rightarrow> Some d)"

section \<open>Request bodies\<close>

record SignupBody =
  name :: string
  email :: string
  password :: string

record LoginBody =
  email :: string
  password :: string

record VerifyOtpBody =
  email :: string
  otp :: string

record ResendOtpBody =
  email :: string

section \<open>Auth endpoints\<close>

text \<open>
  A handler takes the store and returns its answer, a response document or the
  exception that left it, with the store as the request leaves it.
\<close>

text \<open>
  The challenge document that \<^verbatim>\<open>signup\<close>, \<^verbatim>\<open>login\<close> and \<^verbatim>\<open>resend_otp\<close>
  each build in place: \<open>s\<close> is the salt of the hash, \<open>t_created\<close> and \<open>t_expires\<close> the
  values of the two \<^verbatim>\<open>datetime.now\<close> calls of the literal.
\<close>

definition otp_doc :: "env \<Rightarrow> string \<Rightarrow> string \<Rightarrow> int \<Rightarrow> int \<Rightarrow> doc" where
  "otp_doc E addr s t_created t_expires =
     (let raw_otp = ''123456''
      in [(''email'', PStr addr),
          (''otp'', PStr (hash_password E s raw_otp)),
          (''created_at'', PTime t_created),
          (''expires_at'', PTime (t_expires + timedelta_minutes 5))])"

definition signup :: "env \<Rightarrow> runtime \<Rightarrow> store \<Rightarrow> SignupBody \<Rightarrow> (exn + doc) \<times> store" where
  "signup E rt db body =
     (let existing = find_one (users db) ''email'' (PStr (SignupBody.email body))
      in if existing \<noteq> None \<and> existing \<noteq> Some []
         then (Inl (HTTPException 400 ''Email already registered''), db)
         else
           let hashed = hash_password E (salt rt 0) (SignupBody.password body);
               user_doc =
                 [(''name'', PStr (SignupBody.name body)),
                  (''email'', PStr (SignupBody.email body)),
                  (''password'', PStr hashed),
                  (''is_verified'', PBool False),
                  (''created_at'', PTime (now rt 0)),
                  (''updated_at'', PTime (now rt 1))];
               db1 = db\<lparr>users := insert_one (users db) (oid rt 0) user_doc\<rparr>;
               db2 = db1\<lparr>otp_codes := insert_one (otp_codes db1) (oid rt 1)
                       (otp_doc E (SignupBody.email body) (salt rt 1) (now rt 2) (now rt 3))\<rparr>
           in (Inr [(''success'', PBool True),
                    (''message'', PStr ''OTP sent to email''),
                    (''email'', PStr (SignupBody.email body))], db2))"

text \<open>
  The token and the public projection of a user, as \<^verbatim>\<open>login\<close> and
  \<^verbatim>\<open>verify_otp\<close> build them; \<open>t\<close> is the clock value inside \<^verbatim>\<open>create_jwt\<close>.
  A missing field raises \<^verbatim>\<open>KeyError\<close>, in the order the source reads them.
\<close>

definition token_and_user :: "env \<Rightarrow> int \<Rightarrow> doc \<Rightarrow> exn + string \<times> doc" where
  "token_and_user E t user =
     bind (py_item user ''_id'') (\<lambda>uid.
     bind (py_item user ''email'') (\<lambda>addr.
       let token = create_jwt E t [(''user_id'', PStr (py_str E uid)), (''email'', addr)] (60 * 24)
       in bind (py_item user ''name'') (\<lambda>nm.
            Inr (token, [(''id'', PStr (py_str E uid)), (''name'', nm), (''email'', addr)]))))"

definition login :: "env \<Rightarrow> runtime \<Rightarrow> store \<Rightarrow> LoginBody \<Rightarrow> (exn + doc) \<times> store" where
  "login E rt db body =
     (case find_one (users db) ''email'' (PStr (LoginBody.email body)) of
        None \<Rightarrow> (Inl (HTTPException 400 ''Invalid credentials''), db)
      | Some user \<Rightarrow>
          if user = [] then (Inl (HTTPException 400 ''Invalid credentials''), db)
          else
            (case verify_password E (LoginBody.password body) (py_get user ''password'' (PStr [])) of
               Inl e \<Rightarrow> (Inl e, db)
             | Inr ok \<Rightarrow>
                 if \<not> ok then (Inl (HTTPException 400 ''Invalid credentials''), db)
                 else if \<not> truthy (py_get user ''is_verified'' PNone) then
                   (Inr [(''success'', PBool True),
                         (''verified'', PBool False),
                         (''message'', PStr ''OTP sent to email'')],
                    db\<lparr>otp_codes := insert_one (otp_codes db) (oid rt 0)
                         (otp_doc E (LoginBody.email body) (salt rt 0) (now rt 0) (now rt 1))\<rparr>)
                 else
                   (case token_and_user E (now rt 2) user of
                      Inl e \<Rightarrow> (Inl e, db)
                    | Inr (token, user_public) \<Rightarrow>
                        (Inr [(''success'', PBool True),
                              (''verified'', PBool True),
                              (''token'', PStr token),
                              (''user'', PDict user_public)], db))))"

text \<open>
  Line 187: \<^verbatim>\<open>record.get("expires_at") and record["expires_at"] < datetime.now(...)\<close>.
  A missing or null expiry never expires; comparing a value that is not a datetime with
  one raises \<^verbatim>\<open>TypeError\<close>.
\<close>

definition otp_expired :: "doc \<Rightarrow> int \<Rightarrow> exn + bool" where
  "otp_expired rec t =
     (let e = py_get rec ''expires_at'' PNone
      in if \<not> truthy e then Inr False
         else (case e of
                 PTime x \<Rightarrow> Inr (x < t)
               | _ \<Rightarrow> Inl (TypeError ''< not supported between these instances'')))"

definition verify_otp :: "env \<Rightarrow> runtime \<Rightarrow> store \<Rightarrow> VerifyOtpBody \<Rightarrow> (exn + doc) \<times> store" where
  "verify_otp E rt db body =
     (case find_one_sorted (otp_codes db) ''email'' (PStr (VerifyOtpBody.email body)) ''created_at'' of
        None \<Rightarrow> (Inl (HTTPException 400 ''OTP not found''), db)
      | Some rec \<Rightarrow>
          if rec = [] then (Inl (HTTPException 400 ''OTP not found''), db)
          else
            (case otp_expired rec (now rt 0) of
               Inl e \<Rightarrow> (Inl e, db)
             | Inr True \<Rightarrow> (Inl (HTTPException 400 ''OTP expired''), db)
             | Inr False \<Rightarrow>
                 (case verify_password E (otp body) (py_get rec ''otp'' (PStr [])) of
                    Inl e \<Rightarrow> (Inl e, db)
                  | Inr ok \<Rightarrow>
                      if \<not> ok then (Inl (HTTPException 400 ''Invalid OTP''), db)
                      else
                        let db1 = db\<lparr>users := update_one (users db) ''email''
                                     (PStr (VerifyOtpBody.email body))
                                     [(''is_verified'', PBool True),
                                      (''updated_at'', PTime (now rt 1))]\<rparr>
                        in (case find_one (users db1) ''email'' (PStr (VerifyOtpBody.email body)) of
                              None \<Rightarrow> (Inl (TypeError ''NoneType object is not subscriptable''), db1)
                            | Some user \<Rightarrow>
                                (case token_and_user E (now rt 2) user of
                                   Inl e \<Rightarrow> (Inl e, db1)
                                 | Inr (token, user_public) \<Rightarrow>
                                     (Inr [(''success'', PBool True),
                                           (''token'', PStr token),
                                           (''user'', PDict user_public)], db1))))))"

definition resend_otp :: "env \<Rightarrow> runtime \<Rightarrow> store \<Rightarrow> ResendOtpBody \<Rightarrow> (exn + doc) \<times> store" where
  "resend_otp E rt db body =
     (let user = find_one (users db) ''email'' (PStr (ResendOtpBody.email body))
      in if user = None \<or> user = Some []
         then (Inl (HTTPException 400 ''Email not registered''), db)
         else
           (Inr [(''success'', PBool True), (''message'', PStr ''OTP sent'')],
            db\<lparr>otp_codes := insert_one (otp_codes db) (oid rt 0)
                 (otp_doc E (ResendOtpBody.email body) (salt rt 0) (now rt 0) (now rt 1))\<rparr>))"

section \<open>The protected route\<close>

text \<open>The loop body \<^verbatim>\<open>it["id"] = str(it.pop("_id"))\<close>.\<close>

definition relabel :: "env \<Rightarrow> doc \<Rightarrow> exn + doc" where
  "relabel E it =
     (case map_of it ''_id'' of
        None \<Rightarrow> Inl (KeyError ''_id'')
      | Some v \<Rightarrow> Inr (AList.update ''id'' (PStr (py_str E v)) (AList.delete ''_id'' it)))"

fun relabel_all :: "env \<Rightarrow> doc list \<Rightarrow> exn + doc list" where
  "relabel_all E [] = Inr []"
| "relabel_all E (it # items) =
     bind (relabel E it) (\<lambda>it'. bind (relabel_all E items) (\<lambda>items'. Inr (it' # items')))"

definition list_conversations :: "env \<Rightarrow> store \<Rightarrow> doc \<Rightarrow> exn + doc" where
  "list_conversations E db user =
     bind (py_item user ''user_id'') (\<lambda>uid.
     bind (relabel_all E (find_sorted (conversations db) ''user_id'' uid ''updated_at'')) (\<lambda>items.
       Inr [(''success'', PBool True), (''conversations'', PList (map PDict items))]))"

text \<open>
  \<^verbatim>\<open>Depends(get_current_user)\<close>: the dependency runs first, and the handler runs only
  on what it returns.
\<close>

definition conversations_route :: "env \<Rightarrow> runtime \<Rightarrow> store \<Rightarrow> string option \<Rightarrow> exn + doc" where
  "conversations_route E rt db authorization =
     bind (get_current_user E rt authorization) (\<lambda>user. list_conversations E db user)"

section \<open>What the token library guarantees\<close>

text \<open>
  The contract of the signing layer that the program relies on, for the payloads it
  signs (two string claims and the expiry in whole seconds): a token is a non-empty
  string without whitespace, and checking it under the key that signed it returns a
  dictionary equal to the one signed.
\<close>

definition jws_contract :: "env \<Rightarrow> bool" where
  "jws_contract E \<longleftrightarrow>
     (\<forall>uid addr e k.
        let q = [(''user_id'', PStr uid), (''email'', PStr addr), (''exp'', PInt e)];
            tok = jws_encode E q k
        in tok \<noteq> [] \<and> \<not> list_ex is_space tok \<and>
           (\<exists>p. jws_decode E tok k = Inr p \<and> map_of p = map_of q))"

section \<open>Stores the endpoints can produce\<close>

text \<open>
  The stores reachable from one without users and challenges by requests to the four
  endpoints that write (the conversations collection is only read).
\<close>

inductive reachable :: "env \<Rightarrow> store \<Rightarrow> bool" for E :: env where
  initial: "reachable E \<lparr>users = [], otp_codes = [], conversations = cs\<rparr>"
| by_signup: "reachable E db \<Longrightarrow> reachable E (snd (signup E rt db sb))"
| by_login: "reachable E db \<Longrightarrow> reachable E (snd (login E rt db lb))"
| by_verify_otp: "reachable E db \<Longrightarrow> reachable E (snd (verify_otp E rt db vb))"
| by_resend_otp: "reachable E db \<Longrightarrow> reachable E (snd (resend_otp E rt db rb))"

text \<open>
  Every user document has the fields the projections read, and every challenge
  belongs to the address of some user.
\<close>

definition store_inv :: "store \<Rightarrow> bool" where
  "store_inv db \<longleftrightarrow>
     (\<forall>u \<in> set (users db). map_of u ''_id'' \<noteq> None \<and> map_of u ''name'' \<noteq> None) \<and>
     (\<forall>c \<in> set (otp_codes db).
        case map_of c ''email'' of
          None \<Rightarrow> True
        | Some a \<Rightarrow> \<exists>u \<in> set (users db). map_of u ''email'' = Some a)"

text \<open>A request succeeds when its handler returns instead of raising.\<close>

definition succeeds :: "exn + 'a \<Rightarrow> bool" where
  "succeeds r = (case r of Inl _ \<Rightarrow> False | Inr _ \<Rightarrow> True)"

section \<open>A stand-in for the libraries\<close>

text \<open>
  To run the handlers on concrete requests the parameters need values. The stand-in
  writes a string as two letters per character, a number as its base-256 digits,
  a digest as \<^verbatim>\<open>$2b$salt$secret\<close> and a token as \<^verbatim>\<open>key.user_id.email.expiry\<close>,
  all in that letter code. It keeps no secret, but it meets \<open>jws_contract\<close>, refuses
  a token signed under another key and verifies exactly the digests of the right
  secret.
\<close>

definition letters :: "char \<Rightarrow> string" where
  "letters c = [char_of (97 + (of_char c :: nat) div 16), char_of (97 + (of_char c :: nat) mod 16)]"

definition spell :: "string \<Rightarrow> string" where
  "spell s = concat (map letters s)"

fun unspell :: "string \<Rightarrow> string" where
  "unspell (a # b # cs) = char_of (((of_char a :: nat) - 97) * 16 + ((of_char b :: nat) - 97)) # unspell cs"
| "unspell cs = []"

function digits :: "int \<Rightarrow> string" where
  "digits n = (if n \<le> 0 then [] else char_of (n mod 256) # digits (n div 256))"
  by pat_completeness auto
termination
  by (relation "measure nat") auto

declare digits.simps [simp del]

fun undigits :: "string \<Rightarrow> int" where
  "undigits [] = 0"
| "undigits (c # cs) = of_char c + 256 * undigits cs"

definition int_code :: "int \<Rightarrow> int" where
  "int_code i = (if 0 \<le> i then 2 * i else - 2 * i - 1)"

definition int_decode :: "int \<Rightarrow> int" where
  "int_decode n = (if even n then n div 2 else - ((n + 1) div 2))"

fun split_at :: "char \<Rightarrow> string \<Rightarrow> string \<Rightarrow> string list" where
  "split_at sep cur [] = [cur]"
| "split_at sep cur (c # cs) =
     (if c = sep then cur # split_at sep [] cs else split_at sep (cur @ [c]) cs)"

definition str_claim :: "doc \<Rightarrow> string \<Rightarrow> string" where
  "str_claim p k = (case map_of p k of Some (PStr s) \<Rightarrow> s | _ \<Rightarrow> [])"

definition int_claim :: "doc \<Rightarrow> string \<Rightarrow> int" where
  "int_claim p k = (case map_of p k of Some (PInt i) \<Rightarrow> i | _ \<Rightarrow> 0)"

definition demo_encode :: "doc \<Rightarrow> string \<Rightarrow> string" where
  "demo_encode p k =
     spell k @ ''.'' @ spell (str_claim p ''user_id'') @ ''.'' @ spell (str_claim p ''email'')
       @ ''.'' @ spell (digits (int_code (int_claim p ''exp'')))"

definition demo_decode :: "string \<Rightarrow> string \<Rightarrow> exn + doc" where
  "demo_decode tok k =
     (case split_at CHR ''.'' [] tok of
        [sk, su, sa, se] \<Rightarrow>
          if unspell sk \<noteq> k then Inl (LibError ''jwt.InvalidSignatureError'')
          else Inr [(''user_id'', PStr (unspell su)), (''email'', PStr (unspell sa)),
                    (''exp'', PInt (int_decode (undigits (unspell se))))]
      | _ \<Rightarrow> Inl (LibError ''jwt.DecodeError''))"

definition demo_hash :: "string \<Rightarrow> string \<Rightarrow> string" where
  "demo_hash s secret = ''$2b$'' @ spell s @ ''$'' @ spell secret"

definition demo_verify :: "string \<Rightarrow> string \<Rightarrow> exn + bool" where
  "demo_verify secret h =
     (case split_at CHR ''$'' [] h of
        [_, _, _, chk] \<Rightarrow> Inr (chk = spell secret)
      | _ \<Rightarrow> Inl (ValueError ''malformed bcrypt hash''))"

definition demo_env :: env where
  "demo_env = \<lparr>jwt_secret = ''dev-secret-key'', crypt_hash = demo_hash, crypt_verify = demo_verify,
     jws_encode = demo_encode, jws_decode = demo_decode, str_other = (\<lambda>v. ''object'')\<rparr>"

text \<open>
  A clock that advances by one microsecond per reading from \<open>t\<close>, and one that stands
  still at \<open>t\<close>; salts and ObjectIds are fixed per call.
\<close>

definition ticking :: "int \<Rightarrow> runtime" where
  "ticking t = \<lparr>now = (\<lambda>k. t + int k), salt = (\<lambda>k. ''s''), oid = (\<lambda>k. if k = 0 then ''a0'' else ''a1'')\<rparr>"

definition frozen :: "int \<Rightarrow> runtime" where
  "frozen t = \<lparr>now = (\<lambda>k. t), salt = (\<lambda>k. ''s''), oid = (\<lambda>k. if k = 0 then ''b0'' else ''b1'')\<rparr>"

definition empty_store :: store where
  "empty_store = \<lparr>users = [], otp_codes = [], conversations = []\<rparr>"

definition ada :: SignupBody where
  "ada = \<lparr>SignupBody.name = ''A'', email = ''a@x.com'', password = ''p1''\<rparr>"

text \<open>The store after Ada signed up at time 1000, and after she verified her address.\<close>

definition signed_up :: store where
  "signed_up = snd (signup demo_env (ticking 1000) empty_store ada)"

definition verified :: store where
  "verified = snd (verify_otp demo_env (frozen 2000) signed_up
                     \<lparr>VerifyOtpBody.email = ''a@x.com'', otp = ''123456''\<rparr>)"

text \<open>A store with three conversations, two of them of the user \<open>u1\<close>.\<close>

definition chats :: store where
  "chats = \<lparr>users = [], otp_codes = [], conversations =
     [[(''_id'', PId ''c1''), (''user_id'', PStr ''u1''), (''title'', PStr ''first''),
       (''updated_at'', PTime 10)],
      [(''_id'', PId ''c2''), (''user_id'', PStr ''u2''), (''title'', PStr ''other''),
       (''updated_at'', PTime 20)],
      [(''_id'', PId ''c3''), (''user_id'', PStr ''u1''), (''title'', PStr ''second''),
       (''updated_at'', PTime 30)]]\<rparr>"

section \<open>Facts about the store queries\<close>

lemma find_one_SomeD:
  "find_one coll k v = Some d \<Longrightarrow> d \<in> set coll \<and> map_of d k = Some v \<and> d \<noteq> []"
  by (auto simp: find_one_def matches_def find_Some_iff)


section \<open>Facts about the header\<close>

lemma split_from_word:
  "\<not> list_ex is_space w \<Longrightarrow> cur @ w \<noteq> [] \<Longrightarrow> split_from cur w = [cur @ w]"
  by (induction w arbitrary: cur) auto

lemma py_split_bearer:
  assumes "tok \<noteq> []" "\<not> list_ex is_space tok"
  shows "py_split (''Bearer '' @ tok) = [''Bearer'', tok]"
proof -
  have "split_from [] tok = [tok]"
    using split_from_word [of tok "[]"] assms by simp
  then show ?thesis
    by (simp add: py_split_def is_space_def)
qed

lemma py_lower_bearer: "py_lower ''Bearer'' = ''bearer''"
  by code_simp

section \<open>The stand-in meets the contract\<close>

lemma of_char_less_256: "(of_char c :: nat) < 256"
proof -
  have "(of_char c :: nat) mod 256 = of_char c" by (rule of_char_mod_256)
  then show ?thesis by (metis mod_less_divisor zero_less_numeral)
qed

lemma unspell_letters: "unspell (letters c @ cs) = c # unspell cs"
proof -
  let ?n = "of_char c :: nat"
  have b: "?n < 256" by (rule of_char_less_256)
  have "?n div 16 < 16" using b by arith
  then have hi: "(97 + ?n div 16) mod 256 = 97 + ?n div 16" by simp
  have "?n mod 16 < 16" by simp
  then have lo: "(97 + ?n mod 16) mod 256 = 97 + ?n mod 16" by simp
  have "char_of (?n div 16 * 16 + ?n mod 16) = c" by simp
  then show ?thesis
    by (simp add: letters_def of_char_of hi lo)
qed

lemma unspell_spell: "unspell (spell s) = s"
proof (induction s)
  case Nil
  then show ?case by (simp add: spell_def)
next
  case (Cons c s)
  have "spell (c # s) = letters c @ spell s" by (simp add: spell_def)
  with Cons show ?case by (simp add: unspell_letters)
qed

lemma letters_range: "x \<in> set (letters c) \<Longrightarrow> 97 \<le> (of_char x :: nat) \<and> (of_char x :: nat) \<le> 112"
proof -
  let ?n = "of_char c :: nat"
  assume x: "x \<in> set (letters c)"
  have b: "?n < 256" by (rule of_char_less_256)
  have "?n div 16 < 16" using b by arith
  then have hi: "(97 + ?n div 16) mod 256 = 97 + ?n div 16" by simp
  have "?n mod 16 < 16" by simp
  then have lo: "(97 + ?n mod 16) mod 256 = 97 + ?n mod 16" by simp
  have d: "?n div 16 \<le> 15" using b by arith
  have m: "?n mod 16 \<le> 15" by arith
  from x have "x = char_of (97 + ?n div 16) \<or> x = char_of (97 + ?n mod 16)"
    by (simp add: letters_def)
  then show ?thesis
    using d m by (auto simp: of_char_of hi lo)
qed

lemma spell_range: "x \<in> set (spell s) \<Longrightarrow> 97 \<le> (of_char x :: nat) \<and> (of_char x :: nat) \<le> 112"
  by (auto simp: spell_def dest: letters_range)

lemma spell_no_space: "\<not> list_ex is_space (spell s)"
  by (auto simp: list_ex_iff is_space_def dest!: spell_range)

lemma spell_no_dot: "CHR ''.'' \<notin> set (spell s)"
  using spell_range [of "CHR ''.''" s] by auto

lemma split_at_word: "sep \<notin> set w \<Longrightarrow> split_at sep cur w = [cur @ w]"
  by (induction w arbitrary: cur) auto

lemma split_at_field:
  "sep \<notin> set w \<Longrightarrow> split_at sep cur (w @ sep # rest) = (cur @ w) # split_at sep [] rest"
  by (induction w arbitrary: cur) auto

lemma undigits_digits: "0 \<le> n \<Longrightarrow> undigits (digits n) = n"
proof (induction n rule: digits.induct)
  case (1 n)
  show ?case
  proof (cases "n \<le> 0")
    case True
    with "1.prems" show ?thesis by (simp add: digits.simps [of 0])
  next
    case False
    then have "0 \<le> n div 256" by simp
    with "1.IH" False have ih: "undigits (digits (n div 256)) = n div 256" by simp
    have "digits n = char_of (n mod 256) # digits (n div 256)"
      using False by (simp add: digits.simps [of n])
    then show ?thesis using ih by (simp add: of_char_of)
  qed
qed

lemma int_decode_code: "int_decode (int_code i) = i"
  by (auto simp: int_decode_def int_code_def)

lemma int_code_nonneg: "0 \<le> int_code i"
  by (simp add: int_code_def)

lemma demo_encode_claims:
  "demo_encode [(''user_id'', PStr uid), (''email'', PStr addr), (''exp'', PInt e)] k =
     spell k @ CHR ''.'' # spell uid @ CHR ''.'' # spell addr @ CHR ''.'' # spell (digits (int_code e))"
  by (simp add: demo_encode_def str_claim_def int_claim_def)

lemma demo_split:
  "split_at CHR ''.'' [] (spell a @ CHR ''.'' # spell b @ CHR ''.'' # spell c @ CHR ''.'' # spell d) =
     [spell a, spell b, spell c, spell d]"
  by (simp add: split_at_field split_at_word spell_no_dot)

lemma demo_decode_encode:
  "demo_decode (demo_encode [(''user_id'', PStr uid), (''email'', PStr addr), (''exp'', PInt e)] k) k =
     Inr [(''user_id'', PStr uid), (''email'', PStr addr), (''exp'', PInt e)]"
  by (simp add: demo_decode_def demo_encode_claims demo_split unspell_spell
      undigits_digits int_code_nonneg int_decode_code)

lemma demo_token_shape:
  "demo_encode p k \<noteq> [] \<and> \<not> list_ex is_space (demo_encode p k)"
proof -
  have "\<not> is_space CHR ''.''" by (simp add: is_space_def)
  then show ?thesis
    using spell_no_space by (simp add: demo_encode_def)
qed

lemma demo_contract: "jws_contract demo_env"
  unfolding jws_contract_def Let_def
  by (simp add: demo_env_def demo_decode_encode demo_token_shape)

section \<open>Session guard\<close>

lemma create_jwt_claims:
  "create_jwt E t0 [(''user_id'', PStr uid), (''email'', PStr addr)] m =
     jws_encode E [(''user_id'', PStr uid), (''email'', PStr addr),
                   (''exp'', PInt (timegm (t0 + timedelta_minutes m)))] (jwt_secret E)"
  by (simp add: create_jwt_def jwt_encode_def)

lemma contract_token:
  assumes "jws_contract E"
  shows "create_jwt E t0 [(''user_id'', PStr uid), (''email'', PStr addr)] m \<noteq> [] \<and>
         \<not> list_ex is_space (create_jwt E t0 [(''user_id'', PStr uid), (''email'', PStr addr)] m) \<and>
         (\<exists>p. jws_decode E (create_jwt E t0 [(''user_id'', PStr uid), (''email'', PStr addr)] m)
                 (jwt_secret E) = Inr p \<and>
              map_of p ''user_id'' = Some (PStr uid) \<and> map_of p ''email'' = Some (PStr addr) \<and>
              map_of p ''exp'' = Some (PInt (timegm (t0 + timedelta_minutes m))))"
proof -
  let ?q = "[(''user_id'', PStr uid), (''email'', PStr addr),
             (''exp'', PInt (timegm (t0 + timedelta_minutes m)))]"
  let ?tok = "jws_encode E ?q (jwt_secret E)"
  from assms have shape: "?tok \<noteq> []" "\<not> list_ex is_space ?tok"
    and "\<exists>p. jws_decode E ?tok (jwt_secret E) = Inr p \<and> map_of p = map_of ?q"
    unfolding jws_contract_def Let_def by blast+
  then obtain p where p: "jws_decode E ?tok (jwt_secret E) = Inr p" "map_of p = map_of ?q"
    by blast
  have "map_of p ''user_id'' = Some (PStr uid)" "map_of p ''email'' = Some (PStr addr)"
    "map_of p ''exp'' = Some (PInt (timegm (t0 + timedelta_minutes m)))"
    unfolding p(2) by simp_all
  with p(1) shape show ?thesis
    unfolding create_jwt_claims by blast
qed

lemma validate_exp_int:
  "map_of p ''exp'' = Some (PInt e) \<Longrightarrow>
     validate_exp p t =
       (if e * 1000000 \<le> t then Inl (LibError ''jwt.ExpiredSignatureError'') else Inr p)"
  by (simp add: validate_exp_def)

lemma timegm_le: "timegm e * 1000000 \<le> e"
  unfolding timegm_def by simp

lemma bearer_checked:
  assumes "tok \<noteq> []" "\<not> list_ex is_space tok"
  shows "checked_payload E rt (''Bearer '' @ tok) =
           bind (jwt_decode E tok (jwt_secret E) (now rt 0)) (\<lambda>payload.
             if \<not> truthy (py_get payload ''user_id'' PNone) \<or> \<not> truthy (py_get payload ''email'' PNone)
             then Inl (ValueError ''Invalid token payload'') else Inr payload)"
  unfolding checked_payload_def py_split_bearer [OF assms]
  by (simp add: py_lower_bearer decode_jwt_def)

lemma get_current_user_rejects:
  "checked_payload E rt a = Inl x \<Longrightarrow> a \<noteq> [] \<Longrightarrow>
     get_current_user E rt (Some a) = Inl (HTTPException 401 ''Invalid or expired token'')"
  by (simp add: get_current_user_def)

text \<open>
  Claim C1, as the code has it. The token that \<open>create_jwt\<close> makes at time \<open>t0\<close> with
  a ttl of \<open>m\<close> minutes carries the expiry \<open>t0\<close> plus the ttl in whole seconds, the
  microseconds dropped, and the library refuses it from that whole second on. So, with
  a signing layer that meets \<open>jws_contract\<close>, the token made for \<open>user_id\<close> and
  \<open>email\<close> and presented as \<^verbatim>\<open>Bearer <token>\<close>

  \<^item> makes \<open>get_current_user\<close> return a payload with that \<open>user_id\<close> and that
    \<open>email\<close> when both are non-empty and the clock is before the whole second of the
    expiry;
  \<^item> is answered with 401 from the whole second of the expiry on, which is up to one
    second before the ttl has elapsed, and so whenever the ttl has elapsed;
  \<^item> is answered with 401 when \<open>user_id\<close> or \<open>email\<close> is empty (the guard of line 59;
    the handlers sign the string of an ObjectId and a stored email).

  The answer is also 401 for every two-word header whose token the signing layer
  refuses under \<open>jwt_secret\<close>, for a missing or empty header and for a header that is
  not two words or whose first word is not, in lower case, \<^verbatim>\<open>bearer\<close>.
\<close>

theorem authenticate_issued_token:
  assumes "jws_contract E"
  shows "(uid \<noteq> [] \<and> addr \<noteq> [] \<and> now rt 0 < timegm (t0 + timedelta_minutes m) * 1000000 \<longrightarrow>
            (\<exists>p. get_current_user E rt
                    (Some (''Bearer '' @ create_jwt E t0 [(''user_id'', PStr uid), (''email'', PStr addr)] m))
                    = Inr p \<and>
                 map_of p ''user_id'' = Some (PStr uid) \<and> map_of p ''email'' = Some (PStr addr)))
       \<and> (timegm (t0 + timedelta_minutes m) * 1000000 \<le> now rt 0 \<longrightarrow>
            get_current_user E rt
              (Some (''Bearer '' @ create_jwt E t0 [(''user_id'', PStr uid), (''email'', PStr addr)] m))
              = Inl (HTTPException 401 ''Invalid or expired token''))
       \<and> (t0 + timedelta_minutes m \<le> now rt 0 \<longrightarrow>
            get_current_user E rt
              (Some (''Bearer '' @ create_jwt E t0 [(''user_id'', PStr uid), (''email'', PStr addr)] m))
              = Inl (HTTPException 401 ''Invalid or expired token''))
       \<and> (uid = [] \<or> addr = [] \<longrightarrow>
            get_current_user E rt
              (Some (''Bearer '' @ create_jwt E t0 [(''user_id'', PStr uid), (''email'', PStr addr)] m))
              = Inl (HTTPException 401 ''Invalid or expired token''))
       \<and> (\<forall>scheme token x.
            py_split a = [scheme, token] \<and> jws_decode E token (jwt_secret E) = Inl x \<longrightarrow>
            get_current_user E rt (Some a) = Inl (HTTPException 401 ''Invalid or expired token''))
       \<and> get_current_user E rt None = Inl (HTTPException 401 ''Missing Authorization header'')
       \<and> get_current_user E rt (Some []) = Inl (HTTPException 401 ''Missing Authorization header'')
       \<and> (a \<noteq> [] \<and> (length (py_split a) \<noteq> 2 \<or> py_lower (hd (py_split a)) \<noteq> ''bearer'') \<longrightarrow>
            get_current_user E rt (Some a) = Inl (HTTPException 401 ''Invalid or expired token''))"
proof -
  let ?tok = "create_jwt E t0 [(''user_id'', PStr uid), (''email'', PStr addr)] m"
  let ?e = "timegm (t0 + timedelta_minutes m)"
  let ?no = "Inl (HTTPException 401 ''Invalid or expired token'') :: exn + doc"
  from contract_token [OF assms, of t0 uid addr m] obtain p where
    tok: "?tok \<noteq> []" "\<not> list_ex is_space ?tok"
    and p: "jws_decode E ?tok (jwt_secret E) = Inr p"
      "map_of p ''user_id'' = Some (PStr uid)" "map_of p ''email'' = Some (PStr addr)"
      "map_of p ''exp'' = Some (PInt ?e)"
    by blast
  have dec: "jwt_decode E ?tok (jwt_secret E) (now rt 0) =
               (if ?e * 1000000 \<le> now rt 0 then Inl (LibError ''jwt.ExpiredSignatureError'') else Inr p)"
    by (simp add: jwt_decode_def p(1) bind_def validate_exp_int [OF p(4)])
  have chk: "checked_payload E rt (''Bearer '' @ ?tok) =
           bind (jwt_decode E ?tok (jwt_secret E) (now rt 0)) (\<lambda>payload.
             if \<not> truthy (py_get payload ''user_id'' PNone) \<or> \<not> truthy (py_get payload ''email'' PNone)
             then Inl (ValueError ''Invalid token payload'') else Inr payload)"
    by (rule bearer_checked [OF tok(1) tok(2)])
  have valid: "\<exists>p. get_current_user E rt (Some (''Bearer '' @ ?tok)) = Inr p \<and>
                 map_of p ''user_id'' = Some (PStr uid) \<and> map_of p ''email'' = Some (PStr addr)"
    if "uid \<noteq> []" "addr \<noteq> []" "now rt 0 < ?e * 1000000"
  proof -
    have "checked_payload E rt (''Bearer '' @ ?tok) = Inr p"
      unfolding chk dec using p that by (simp add: bind_def py_get_def)
    then have "get_current_user E rt (Some (''Bearer '' @ ?tok)) = Inr p"
      by (simp add: get_current_user_def)
    with p show ?thesis by blast
  qed
  have expired: "get_current_user E rt (Some (''Bearer '' @ ?tok)) = ?no"
    if "?e * 1000000 \<le> now rt 0"
  proof -
    have "checked_payload E rt (''Bearer '' @ ?tok) = Inl (LibError ''jwt.ExpiredSignatureError'')"
      unfolding chk dec using that by (simp add: bind_def)
    then show ?thesis by (rule get_current_user_rejects) simp
  qed
  have elapsed: "get_current_user E rt (Some (''Bearer '' @ ?tok)) = ?no"
    if "t0 + timedelta_minutes m \<le> now rt 0"
  proof -
    have "?e * 1000000 \<le> now rt 0"
      using timegm_le [of "t0 + timedelta_minutes m"] that by linarith
    then show ?thesis by (rule expired)
  qed
  have empty: "get_current_user E rt (Some (''Bearer '' @ ?tok)) = ?no"
    if "uid = [] \<or> addr = []"
  proof -
    have "\<exists>y. checked_payload E rt (''Bearer '' @ ?tok) = Inl y"
      unfolding chk dec using p that by (auto simp: bind_def py_get_def)
    then show ?thesis using get_current_user_rejects by blast
  qed
  have rejected: "get_current_user E rt (Some a) = ?no"
    if "py_split a = [scheme, token]" "jws_decode E token (jwt_secret E) = Inl x"
    for scheme token x
  proof -
    have "a \<noteq> []" using that(1) by (auto simp: py_split_def)
    moreover have "\<exists>y. checked_payload E rt a = Inl y"
      using that by (simp add: checked_payload_def decode_jwt_def jwt_decode_def bind_def)
    ultimately show ?thesis using get_current_user_rejects by blast
  qed
  have malformed: "get_current_user E rt (Some a) = ?no"
    if "a \<noteq> []" "length (py_split a) \<noteq> 2 \<or> py_lower (hd (py_split a)) \<noteq> ''bearer''"
  proof -
    have "\<exists>y. checked_payload E rt a = Inl y"
      using that(2) by (auto simp: checked_payload_def split: list.splits)
    with that(1) show ?thesis using get_current_user_rejects by blast
  qed
  show ?thesis
    using valid expired elapsed empty rejected malformed by (simp add: get_current_user_def)
qed

theorem authenticate_issued_token_witness:
  "(\<exists>p. get_current_user demo_env (frozen 59999999)
          (Some (''Bearer '' @ create_jwt demo_env 500000
             [(''user_id'', PStr ''u1''), (''email'', PStr ''a@x.com'')] 1)) = Inr p \<and>
        map_of p ''user_id'' = Some (PStr ''u1'') \<and> map_of p ''email'' = Some (PStr ''a@x.com''))
   \<and> get_current_user demo_env (frozen 60000000)
          (Some (''Bearer '' @ create_jwt demo_env 500000
             [(''user_id'', PStr ''u1''), (''email'', PStr ''a@x.com'')] 1))
        = Inl (HTTPException 401 ''Invalid or expired token'')
   \<and> get_current_user demo_env (frozen 60500000)
          (Some (''Bearer '' @ create_jwt demo_env 500000
             [(''user_id'', PStr ''u1''), (''email'', PStr ''a@x.com'')] 1))
        = Inl (HTTPException 401 ''Invalid or expired token'')
   \<and> get_current_user demo_env (frozen 5000)
          (Some (''Bearer '' @ create_jwt demo_env 0
             [(''user_id'', PStr []), (''email'', PStr ''a@x.com'')] 1440))
        = Inl (HTTPException 401 ''Invalid or expired token'')
   \<and> get_current_user demo_env (frozen 5000)
          (Some (''Bearer '' @ jwt_encode demo_env
             [(''user_id'', PStr ''u1''), (''email'', PStr ''a@x.com''), (''exp'', PTime 86400000000)]
             ''another-key''))
        = Inl (HTTPException 401 ''Invalid or expired token'')
   \<and> get_current_user demo_env (frozen 5000) None
        = Inl (HTTPException 401 ''Missing Authorization header'')
   \<and> get_current_user demo_env (frozen 5000) (Some ''Token abc'')
        = Inl (HTTPException 401 ''Invalid or expired token'')"
proof -
  let ?forged = "jwt_encode demo_env
     [(''user_id'', PStr ''u1''), (''email'', PStr ''a@x.com''), (''exp'', PTime 86400000000)]
     ''another-key''"
  have early: "''u1'' \<noteq> [] \<and> ''a@x.com'' \<noteq> [] \<and>
      now (frozen 59999999) 0 < timegm (500000 + timedelta_minutes 1) * 1000000"
    by (simp add: frozen_def timedelta_minutes_def timegm_def)
  have second: "timegm (500000 + timedelta_minutes 1) * 1000000 \<le> now (frozen 60000000) 0"
    by (simp add: frozen_def timedelta_minutes_def timegm_def)
  have late: "500000 + timedelta_minutes 1 \<le> now (frozen 60500000) 0"
    by (simp add: frozen_def timedelta_minutes_def)
  have forged: "py_split (''Bearer '' @ ?forged) = [''Bearer'', ?forged] \<and>
      jws_decode demo_env ?forged (jwt_secret demo_env) = Inl (LibError ''jwt.InvalidSignatureError'')"
    by code_simp
  have other: "''Token abc'' \<noteq> [] \<and>
      (length (py_split ''Token abc'') \<noteq> 2 \<or> py_lower (hd (py_split ''Token abc'')) \<noteq> ''bearer'')"
    by code_simp
  have c1: "\<exists>p. get_current_user demo_env (frozen 59999999)
          (Some (''Bearer '' @ create_jwt demo_env 500000
             [(''user_id'', PStr ''u1''), (''email'', PStr ''a@x.com'')] 1)) = Inr p \<and>
        map_of p ''user_id'' = Some (PStr ''u1'') \<and> map_of p ''email'' = Some (PStr ''a@x.com'')"
    using authenticate_issued_token [OF demo_contract, where uid = "''u1''" and addr = "''a@x.com''"
        and rt = "frozen 59999999" and ?t0.0 = 500000 and m = 1 and a = "[]"] early
    by blast
  have c2: "get_current_user demo_env (frozen 60000000)
          (Some (''Bearer '' @ create_jwt demo_env 500000
             [(''user_id'', PStr ''u1''), (''email'', PStr ''a@x.com'')] 1))
        = Inl (HTTPException 401 ''Invalid or expired token'')"
    using authenticate_issued_token [OF demo_contract, where uid = "''u1''" and addr = "''a@x.com''"
        and rt = "frozen 60000000" and ?t0.0 = 500000 and m = 1 and a = "[]"] second
    by blast
  have c3: "get_current_user demo_env (frozen 60500000)
          (Some (''Bearer '' @ create_jwt demo_env 500000
             [(''user_id'', PStr ''u1''), (''email'', PStr ''a@x.com'')] 1))
        = Inl (HTTPException 401 ''Invalid or expired token'')"
    using authenticate_issued_token [OF demo_contract, where uid = "''u1''" and addr = "''a@x.com''"
        and rt = "frozen 60500000" and ?t0.0 = 500000 and m = 1 and a = "[]"] late
    by blast
  have c4: "get_current_user demo_env (frozen 5000)
          (Some (''Bearer '' @ create_jwt demo_env 0
             [(''user_id'', PStr []), (''email'', PStr ''a@x.com'')] 1440))
        = Inl (HTTPException 401 ''Invalid or expired token'')"
    using authenticate_issued_token [OF demo_contract, where uid = "[]" and addr = "''a@x.com''"
        and rt = "frozen 5000" and ?t0.0 = 0 and m = 1440 and a = "[]"]
    by blast
  have c5: "get_current_user demo_env (frozen 5000) (Some (''Bearer '' @ ?forged))
        = Inl (HTTPException 401 ''Invalid or expired token'')"
    using authenticate_issued_token [OF demo_contract, where uid = "[]" and addr = "[]"
        and rt = "frozen 5000" and ?t0.0 = 0 and m = 0 and a = "''Bearer '' @ ?forged"] forged
    by blast
  have c6: "get_current_user demo_env (frozen 5000) None
        = Inl (HTTPException 401 ''Missing Authorization header'')"
    using authenticate_issued_token [OF demo_contract, where uid = "[]" and addr = "[]"
        and rt = "frozen 5000" and ?t0.0 = 0 and m = 0 and a = "[]"]
    by blast
  have c7: "get_current_user demo_env (frozen 5000) (Some ''Token abc'')
        = Inl (HTTPException 401 ''Invalid or expired token'')"
    using authenticate_issued_token [OF demo_contract, where uid = "[]" and addr = "[]"
        and rt = "frozen 5000" and ?t0.0 = 0 and m = 0 and a = "''Token abc''"] other
    by blast
  from c1 c2 c3 c4 c5 c6 c7 show ?thesis by blast
qed

text \<open>
  The claim as stated fails inside the ttl: a token made at 0.5 s with a ttl of one
  minute carries the expiry 60 s, and presented at 60.2 s, before the ttl has elapsed,
  it is answered with 401.
\<close>

theorem authenticate_within_ttl_counterexample:
  "now (frozen 60200000) 0 < 500000 + timedelta_minutes 1
   \<and> get_current_user demo_env (frozen 60200000)
       (Some (''Bearer '' @ create_jwt demo_env 500000
          [(''user_id'', PStr ''u1''), (''email'', PStr ''a@x.com'')] 1))
     = Inl (HTTPException 401 ''Invalid or expired token'')"
  by code_simp

text \<open>
  Claim C10: a header that does not split into exactly two words, such as the bare word
  \<^verbatim>\<open>Bearer\<close> or \<^verbatim>\<open>Bearer <token> <extra>\<close>, is answered with 401, whatever token
  it carries.
\<close>

theorem header_not_two_words_unauthorized:
  assumes "length (py_split h) \<noteq> 2"
  shows "get_current_user E rt (Some h) =
           Inl (HTTPException 401 (if h = [] then ''Missing Authorization header''
                                   else ''Invalid or expired token''))"
proof (cases "h = []")
  case True
  then show ?thesis by (simp add: get_current_user_def)
next
  case False
  have "checked_payload E rt h = Inl (ValueError ''not enough or too many values to unpack'')"
    using assms by (auto simp: checked_payload_def split: list.splits)
  with False show ?thesis by (simp add: get_current_user_def)
qed

theorem header_not_two_words_unauthorized_witness:
  "get_current_user demo_env (frozen 5000) (Some ''Bearer'')
     = Inl (HTTPException 401 ''Invalid or expired token'')
   \<and> get_current_user demo_env (frozen 5000)
       (Some (''Bearer '' @ create_jwt demo_env 0
          [(''user_id'', PStr ''u1''), (''email'', PStr ''a@x.com'')] 1440 @ '' extra''))
     = Inl (HTTPException 401 ''Invalid or expired token'')"
proof -
  have one: "length (py_split ''Bearer'') \<noteq> 2"
    by code_simp
  have three: "length (py_split (''Bearer '' @ create_jwt demo_env 0
          [(''user_id'', PStr ''u1''), (''email'', PStr ''a@x.com'')] 1440 @ '' extra'')) \<noteq> 2"
    by code_simp
  show ?thesis
    using header_not_two_words_unauthorized [OF one, of demo_env "frozen 5000"]
      header_not_two_words_unauthorized [OF three, of demo_env "frozen 5000"]
    by simp
qed

section \<open>Auth flow\<close>

text \<open>
  Claim C5: a signup whose email already has a user record fails with
  \<^verbatim>\<open>400 Email already registered\<close> (the spec's DuplicateEmail) and leaves the whole
  store as it was: no second user, the existing user untouched, no challenge inserted.
\<close>

theorem signup_duplicate_unchanged:
  assumes "find_one (users db) ''email'' (PStr (SignupBody.email body)) = Some u"
  shows "signup E rt db body = (Inl (HTTPException 400 ''Email already registered''), db)"
proof -
  have "u \<noteq> []" using find_one_SomeD [OF assms] by simp
  with assms show ?thesis by (simp add: signup_def)
qed

theorem signup_duplicate_unchanged_witness:
  "signup demo_env (ticking 9000) signed_up ada
     = (Inl (HTTPException 400 ''Email already registered''), signed_up)"
proof -
  have h: "find_one (users signed_up) ''email'' (PStr (SignupBody.email ada)) =
      Some [(''_id'', PId ''a0''), (''name'', PStr ''A''), (''email'', PStr ''a@x.com''),
            (''password'', PStr ''$2b$hd$hadb''), (''is_verified'', PBool False),
            (''created_at'', PTime 1000), (''updated_at'', PTime 1001)]"
    by code_simp
  show ?thesis by (rule signup_duplicate_unchanged [OF h])
qed



text \<open>
  Claim C8: \<open>resend_otp\<close> fails with \<^verbatim>\<open>400 Email not registered\<close> (the spec's
  NotFound) when no user record has the email, and otherwise appends a new challenge and
  returns success, whatever the user's verification flag.
\<close>

theorem resend_otp_behaviour:
  "(find_one (users db) ''email'' (PStr (ResendOtpBody.email body)) = None \<longrightarrow>
      resend_otp E rt db body = (Inl (HTTPException 400 ''Email not registered''), db))
   \<and> (\<forall>u. find_one (users db) ''email'' (PStr (ResendOtpBody.email body)) = Some u \<longrightarrow>
      resend_otp E rt db body =
        (Inr [(''success'', PBool True), (''message'', PStr ''OTP sent'')],
         db\<lparr>otp_codes := otp_codes db @
              [[(''_id'', PId (oid rt 0)),
                (''email'', PStr (ResendOtpBody.email body)),
                (''otp'', PStr (hash_password E (salt rt 0) ''123456'')),
                (''created_at'', PTime (now rt 0)),
                (''expires_at'', PTime (now rt 1 + timedelta_minutes 5))]]\<rparr>))"
proof -
  have "u \<noteq> []" if "find_one (users db) ''email'' (PStr (ResendOtpBody.email body)) = Some u" for u
    using find_one_SomeD [OF that] by simp
  then show ?thesis
    by (auto simp: resend_otp_def insert_one_def otp_doc_def)
qed

lemma verify_password_empty:
  "verify_password E plain (PStr []) = Inl (LibError ''passlib.exc.UnknownHashError'')"
  by (simp add: verify_password_def pwd_context_verify_def bcrypt_identify_def)

theorem resend_otp_behaviour_witness:
  "find_one (users verified) ''email'' (PStr ''a@x.com'') =
     Some [(''_id'', PId ''a0''), (''name'', PStr ''A''), (''email'', PStr ''a@x.com''),
           (''password'', PStr ''$2b$hd$hadb''), (''is_verified'', PBool True),
           (''created_at'', PTime 1000), (''updated_at'', PTime 2000)]
   \<and> resend_otp demo_env (ticking 7000) verified \<lparr>ResendOtpBody.email = ''a@x.com''\<rparr> =
       (Inr [(''success'', PBool True), (''message'', PStr ''OTP sent'')],
        verified\<lparr>otp_codes := otp_codes verified @
           [[(''_id'', PId ''a0''), (''email'', PStr ''a@x.com''),
             (''otp'', PStr ''$2b$hd$dbdcdddedfdg''),
             (''created_at'', PTime 7000), (''expires_at'', PTime 300007001)]]\<rparr>)
   \<and> resend_otp demo_env (ticking 7000) verified \<lparr>ResendOtpBody.email = ''nobody@x.com''\<rparr> =
       (Inl (HTTPException 400 ''Email not registered''), verified)"
proof -
  let ?u = "[(''_id'', PId ''a0''), (''name'', PStr ''A''), (''email'', PStr ''a@x.com''),
            (''password'', PStr ''$2b$hd$hadb''), (''is_verified'', PBool True),
            (''created_at'', PTime 1000), (''updated_at'', PTime 2000)]"
  have present: "find_one (users verified) ''email'' (PStr ''a@x.com'') = Some ?u"
    by code_simp
  have absent: "find_one (users verified) ''email'' (PStr ''nobody@x.com'') = None"
    by code_simp
  have doc: "[(''_id'', PId (oid (ticking 7000) 0)), (''email'', PStr ''a@x.com''),
       (''otp'', PStr (hash_password demo_env (salt (ticking 7000) 0) ''123456'')),
       (''created_at'', PTime (now (ticking 7000) 0)),
       (''expires_at'', PTime (now (ticking 7000) 1 + timedelta_minutes 5))]
     = [(''_id'', PId ''a0''), (''email'', PStr ''a@x.com''),
        (''otp'', PStr ''$2b$hd$dbdcdddedfdg''),
        (''created_at'', PTime 7000), (''expires_at'', PTime 300007001)]"
    by code_simp
  show ?thesis
    using resend_otp_behaviour [of verified "\<lparr>ResendOtpBody.email = ''a@x.com''\<rparr>" demo_env "ticking 7000"]
      resend_otp_behaviour [of verified "\<lparr>ResendOtpBody.email = ''nobody@x.com''\<rparr>" demo_env "ticking 7000"]
      present absent doc
    by simp
qed

text \<open>
  Claim C6 says that verification against an unsupported or corrupt digest, the empty
  string included, reports a failure. The code does not: \<open>verify_password\<close> hands the
  digest to \<^verbatim>\<open>pwd_context.verify\<close>, which raises for a string no scheme identifies,
  and nothing catches it. So the empty digest raises, a login for a user record without
  a \<^verbatim>\<open>password\<close> field (read with the default \<^verbatim>\<open>""\<close>) is answered with 500, and
  so is \<open>verify_otp\<close> on a challenge without an \<^verbatim>\<open>otp\<close> field.
\<close>

theorem corrupt_digest_raises:
  "verify_password E plain (PStr []) = Inl (LibError ''passlib.exc.UnknownHashError'')
   \<and> verify_password E plain (PStr ''plaintext'') = Inl (LibError ''passlib.exc.UnknownHashError'')
   \<and> login E rt
        \<lparr>users = [[(''_id'', PId ''u1''), (''name'', PStr ''A''), (''email'', PStr ''a@x.com'')]],
         otp_codes = [], conversations = []\<rparr>
        \<lparr>LoginBody.email = ''a@x.com'', password = plain\<rparr>
       = (Inl (LibError ''passlib.exc.UnknownHashError''),
          \<lparr>users = [[(''_id'', PId ''u1''), (''name'', PStr ''A''), (''email'', PStr ''a@x.com'')]],
           otp_codes = [], conversations = []\<rparr>)
   \<and> status_code (fst (login E rt
        \<lparr>users = [[(''_id'', PId ''u1''), (''name'', PStr ''A''), (''email'', PStr ''a@x.com'')]],
         otp_codes = [], conversations = []\<rparr>
        \<lparr>LoginBody.email = ''a@x.com'', password = plain\<rparr>)) = 500
   \<and> status_code (fst (verify_otp E rt
        \<lparr>users = [[(''_id'', PId ''u1''), (''name'', PStr ''A''), (''email'', PStr ''a@x.com'')]],
         otp_codes = [[(''_id'', PId ''c1''), (''email'', PStr ''a@x.com''), (''created_at'', PTime 0)]],
         conversations = []\<rparr>
        \<lparr>VerifyOtpBody.email = ''a@x.com'', otp = plain\<rparr>)) = 500"
  by (simp add: verify_password_def pwd_context_verify_def bcrypt_identify_def login_def verify_otp_def
      find_one_def find_one_sorted_def find_sorted_def sort_desc_def matches_def py_get_def
      otp_expired_def status_code_def)








lemma set_insert_desc: "set (insert_desc f d xs) = insert d (set xs)"
  by (induction xs) auto

lemma set_sort_desc: "set (sort_desc f ds) = set ds"
  by (induction ds) (auto simp: sort_desc_def set_insert_desc)

lemma length_insert_desc: "length (insert_desc f d xs) = Suc (length xs)"
  by (induction xs) auto

lemma length_sort_desc: "length (sort_desc f ds) = length ds"
  by (induction ds) (auto simp: sort_desc_def length_insert_desc)

lemma sorted_insert_desc:
  "sorted_wrt (\<lambda>a b. time_key f b \<le> time_key f a) xs \<Longrightarrow>
   sorted_wrt (\<lambda>a b. time_key f b \<le> time_key f a) (insert_desc f d xs)"
proof (induction xs)
  case Nil
  then show ?case by simp
next
  case (Cons x xs)
  show ?case
  proof (cases "time_key f x \<le> time_key f d")
    case True
    with Cons.prems show ?thesis by (auto intro: order_trans)
  next
    case False
    then have "time_key f d \<le> time_key f x" by simp
    with Cons False show ?thesis by (auto simp: set_insert_desc)
  qed
qed

lemma sorted_sort_desc: "sorted_wrt (\<lambda>a b. time_key f b \<le> time_key f a) (sort_desc f ds)"
  by (induction ds) (auto simp: sort_desc_def intro: sorted_insert_desc)

lemma find_sorted_set: "set (find_sorted coll k v f) = {d \<in> set coll. map_of d k = Some v}"
  by (auto simp: find_sorted_def set_sort_desc matches_def)

lemma find_one_sorted_None_iff:
  "find_one_sorted coll k v f = None \<longleftrightarrow> (\<forall>d \<in> set coll. map_of d k \<noteq> Some v)"
proof -
  have "find_one_sorted coll k v f = None \<longleftrightarrow> find_sorted coll k v f = []"
    by (simp add: find_one_sorted_def split: list.splits)
  also have "\<dots> \<longleftrightarrow> set (find_sorted coll k v f) = {}" by simp
  also have "\<dots> \<longleftrightarrow> (\<forall>d \<in> set coll. map_of d k \<noteq> Some v)"
    unfolding find_sorted_set by auto
  finally show ?thesis .
qed


section \<open>Facts about the guard and the relabelling\<close>

lemma get_current_user_Inl:
  "get_current_user E rt h = Inl e \<Longrightarrow> \<exists>msg. e = HTTPException 401 msg"
  by (auto simp: get_current_user_def split: option.splits if_splits sum.splits)

lemma checked_payload_Inr:
  "checked_payload E rt a = Inr p \<Longrightarrow>
     truthy (py_get p ''user_id'' PNone) \<and> truthy (py_get p ''email'' PNone)"
  by (auto simp: checked_payload_def bind_def Let_def split: list.splits if_splits sum.splits)

lemma get_current_user_Inr:
  "get_current_user E rt h = Inr p \<Longrightarrow>
     truthy (py_get p ''user_id'' PNone) \<and> truthy (py_get p ''email'' PNone)"
  by (auto simp: get_current_user_def dest: checked_payload_Inr
      split: option.splits if_splits sum.splits)

lemma truthy_get_Some: "truthy (py_get p k PNone) \<Longrightarrow> \<exists>v. map_of p k = Some v"
  by (cases "map_of p k") (auto simp: py_get_def)

lemma relabel_keeps:
  assumes "relabel E d = Inr it" "k \<noteq> ''id''" "k \<noteq> ''_id''"
  shows "map_of it k = map_of d k"
  using assms by (auto simp: relabel_def update_conv' delete_conv' split: option.splits)

lemma relabel_all_Inr:
  "\<forall>d \<in> set ds. map_of d ''_id'' \<noteq> None \<Longrightarrow>
     \<exists>items. relabel_all E ds = Inr items \<and> list_all2 (\<lambda>d it. relabel E d = Inr it) ds items"
proof (induction ds)
  case Nil
  then show ?case by simp
next
  case (Cons d ds)
  then obtain items where items: "relabel_all E ds = Inr items"
      "list_all2 (\<lambda>d it. relabel E d = Inr it) ds items"
    by auto
  from Cons.prems obtain v where "map_of d ''_id'' = Some v" by auto
  then obtain it where it: "relabel E d = Inr it" by (simp add: relabel_def)
  show ?case using items it by (simp add: bind_def)
qed

lemma list_all2_source:
  "list_all2 P xs ys \<Longrightarrow> y \<in> set ys \<Longrightarrow> \<exists>x \<in> set xs. P x y"
  by (induction rule: list_all2_induct) auto

lemma sorted_wrt_relabelled:
  assumes "list_all2 (\<lambda>d it. relabel E d = Inr it) ds items"
    and "sorted_wrt (\<lambda>a b. time_key ''updated_at'' b \<le> time_key ''updated_at'' a) ds"
  shows "sorted_wrt (\<lambda>a b. time_key ''updated_at'' b \<le> time_key ''updated_at'' a) items"
  using assms
proof (induction rule: list_all2_induct)
  case Nil
  then show ?case by simp
next
  case (Cons d ds it items)
  have key: "time_key ''updated_at'' y = time_key ''updated_at'' x" if "relabel E x = Inr y" for x y
    using relabel_keeps [OF that, of "''updated_at''"] by (simp add: time_key_def)
  have "\<forall>y \<in> set items. time_key ''updated_at'' y \<le> time_key ''updated_at'' it"
  proof
    fix y assume "y \<in> set items"
    from list_all2_source [OF Cons.hyps(2) \<open>y \<in> set items\<close>]
    obtain x where x: "x \<in> set ds" "relabel E x = Inr y" by blast
    with Cons.prems have "time_key ''updated_at'' x \<le> time_key ''updated_at'' d" by simp
    then show "time_key ''updated_at'' y \<le> time_key ''updated_at'' it"
      using key [OF x(2)] key [OF Cons.hyps(1)] by simp
  qed
  with Cons show ?case by simp
qed

section \<open>The protected listing\<close>

text \<open>
  Claim C9. A request that \<open>get_current_user\<close> refuses is answered with its 401 and the
  handler does not run, so no conversation is read. A request that it accepts, with
  the payload \<open>user\<close>, is answered with a list \<open>items\<close> in which every entry has the
  \<open>user_id\<close> of the payload, which is sorted by \<open>updated_at\<close> descending (an entry
  without a datetime there comes after all that have one), and which holds, relabelled
  from \<^verbatim>\<open>_id\<close> to \<^verbatim>\<open>id\<close>, exactly as many entries as the collection has documents
  of that \<open>user_id\<close>, each of them from the collection. The stored documents carry the
  \<^verbatim>\<open>_id\<close> that MongoDB gives every document; without it
  \<^verbatim>\<open>it.pop("_id")\<close> raises.
\<close>

theorem conversations_scoped_sorted:
  "(\<forall>e. get_current_user E rt h = Inl e \<longrightarrow>
       conversations_route E rt db h = Inl e \<and> (\<exists>msg. e = HTTPException 401 msg))
   \<and> (\<forall>user. get_current_user E rt h = Inr user \<and>
         (\<forall>d \<in> set (conversations db). map_of d ''_id'' \<noteq> None) \<longrightarrow>
       (\<exists>uid items.
          map_of user ''user_id'' = Some uid \<and>
          conversations_route E rt db h =
            Inr [(''success'', PBool True), (''conversations'', PList (map PDict items))] \<and>
          (\<forall>it \<in> set items. map_of it ''user_id'' = Some uid) \<and>
          sorted_wrt (\<lambda>a b. time_key ''updated_at'' b \<le> time_key ''updated_at'' a) items \<and>
          (\<forall>it \<in> set items. \<exists>d \<in> set (conversations db). relabel E d = Inr it) \<and>
          length items = length (filter (\<lambda>d. map_of d ''user_id'' = Some uid) (conversations db))))"
proof -
  have refused: "conversations_route E rt db h = Inl e \<and> (\<exists>msg. e = HTTPException 401 msg)"
    if "get_current_user E rt h = Inl e" for e
    using that get_current_user_Inl [OF that] by (simp add: conversations_route_def bind_def)
  have served: "\<exists>uid items.
          map_of user ''user_id'' = Some uid \<and>
          conversations_route E rt db h =
            Inr [(''success'', PBool True), (''conversations'', PList (map PDict items))] \<and>
          (\<forall>it \<in> set items. map_of it ''user_id'' = Some uid) \<and>
          sorted_wrt (\<lambda>a b. time_key ''updated_at'' b \<le> time_key ''updated_at'' a) items \<and>
          (\<forall>it \<in> set items. \<exists>d \<in> set (conversations db). relabel E d = Inr it) \<and>
          length items = length (filter (\<lambda>d. map_of d ''user_id'' = Some uid) (conversations db))"
    if a: "get_current_user E rt h = Inr user \<and>
      (\<forall>d \<in> set (conversations db). map_of d ''_id'' \<noteq> None)" for user
  proof -
  from a obtain uid where uid: "map_of user ''user_id'' = Some uid"
    using get_current_user_Inr truthy_get_Some by blast
  let ?found = "find_sorted (conversations db) ''user_id'' uid ''updated_at''"
  have sub: "set ?found = {d \<in> set (conversations db). map_of d ''user_id'' = Some uid}"
    by (rule find_sorted_set)
  then have "\<forall>d \<in> set ?found. map_of d ''_id'' \<noteq> None" using a by auto
  from relabel_all_Inr [OF this] obtain items where items:
    "relabel_all E ?found = Inr items" "list_all2 (\<lambda>d it. relabel E d = Inr it) ?found items"
    by blast
  have route: "conversations_route E rt db h =
      Inr [(''success'', PBool True), (''conversations'', PList (map PDict items))]"
    using a uid items(1)
    by (simp add: conversations_route_def list_conversations_def bind_def py_item_def)
  have src: "\<exists>d \<in> set ?found. relabel E d = Inr it" if "it \<in> set items" for it
    using list_all2_source [OF items(2) that] by simp
  have scoped: "\<forall>it \<in> set items. map_of it ''user_id'' = Some uid"
  proof
    fix it assume "it \<in> set items"
    from src [OF this] obtain d where d: "d \<in> set ?found" "relabel E d = Inr it" by blast
    then have "map_of d ''user_id'' = Some uid" using sub by auto
    then show "map_of it ''user_id'' = Some uid"
      using relabel_keeps [OF d(2), of "''user_id''"] by simp
  qed
  have sorted: "sorted_wrt (\<lambda>a b. time_key ''updated_at'' b \<le> time_key ''updated_at'' a) items"
    using sorted_wrt_relabelled [OF items(2)] sorted_sort_desc by (simp add: find_sorted_def)
  have stored: "\<forall>it \<in> set items. \<exists>d \<in> set (conversations db). relabel E d = Inr it"
    using src sub by blast
  have "length items = length ?found" using items(2) by (simp add: list_all2_lengthD)
  moreover have "matches ''user_id'' uid = (\<lambda>d. map_of d ''user_id'' = Some uid)"
    by (rule ext) (simp add: matches_def)
  ultimately have len: "length items = length (filter (\<lambda>d. map_of d ''user_id'' = Some uid) (conversations db))"
    by (simp add: find_sorted_def length_sort_desc)
  show "\<exists>uid items.
          map_of user ''user_id'' = Some uid \<and>
          conversations_route E rt db h =
            Inr [(''success'', PBool True), (''conversations'', PList (map PDict items))] \<and>
          (\<forall>it \<in> set items. map_of it ''user_id'' = Some uid) \<and>
          sorted_wrt (\<lambda>a b. time_key ''updated_at'' b \<le> time_key ''updated_at'' a) items \<and>
          (\<forall>it \<in> set items. \<exists>d \<in> set (conversations db). relabel E d = Inr it) \<and>
          length items = length (filter (\<lambda>d. map_of d ''user_id'' = Some uid) (conversations db))"
    by (intro exI [of _ uid] exI [of _ items] conjI uid route scoped sorted stored len)
  qed
  show ?thesis
  proof (rule conjI)
    show "\<forall>e. get_current_user E rt h = Inl e \<longrightarrow>
       conversations_route E rt db h = Inl e \<and> (\<exists>msg. e = HTTPException 401 msg)"
      by (intro allI impI refused)
    show "\<forall>user. get_current_user E rt h = Inr user \<and>
         (\<forall>d \<in> set (conversations db). map_of d ''_id'' \<noteq> None) \<longrightarrow>
       (\<exists>uid items.
          map_of user ''user_id'' = Some uid \<and>
          conversations_route E rt db h =
            Inr [(''success'', PBool True), (''conversations'', PList (map PDict items))] \<and>
          (\<forall>it \<in> set items. map_of it ''user_id'' = Some uid) \<and>
          sorted_wrt (\<lambda>a b. time_key ''updated_at'' b \<le> time_key ''updated_at'' a) items \<and>
          (\<forall>it \<in> set items. \<exists>d \<in> set (conversations db). relabel E d = Inr it) \<and>
          length items = length (filter (\<lambda>d. map_of d ''user_id'' = Some uid) (conversations db)))"
      by (intro allI impI served)
  qed
qed

theorem conversations_scoped_sorted_witness:
  "conversations_route demo_env (frozen 5000) chats None
     = Inl (HTTPException 401 ''Missing Authorization header'')
   \<and> (\<exists>items.
        conversations_route demo_env (frozen 5000) chats
          (Some (''Bearer '' @ create_jwt demo_env 0
             [(''user_id'', PStr ''u1''), (''email'', PStr ''a@x.com'')] 1440))
          = Inr [(''success'', PBool True), (''conversations'', PList (map PDict items))] \<and>
        (\<forall>it \<in> set items. map_of it ''user_id'' = Some (PStr ''u1'')) \<and>
        sorted_wrt (\<lambda>a b. time_key ''updated_at'' b \<le> time_key ''updated_at'' a) items \<and>
        length items = 2)"
proof -
  let ?h = "Some (''Bearer '' @ create_jwt demo_env 0
             [(''user_id'', PStr ''u1''), (''email'', PStr ''a@x.com'')] 1440)"
  let ?user = "[(''user_id'', PStr ''u1''), (''email'', PStr ''a@x.com''), (''exp'', PInt 86400)]"
  have none: "get_current_user demo_env (frozen 5000) None
      = Inl (HTTPException 401 ''Missing Authorization header'')"
    by (simp add: get_current_user_def)
  have some: "get_current_user demo_env (frozen 5000) ?h = Inr ?user"
    by code_simp
  have ids: "\<forall>d \<in> set (conversations chats). map_of d ''_id'' \<noteq> None"
    by (simp add: chats_def)
  have two: "length (filter (\<lambda>d. map_of d ''user_id'' = Some (PStr ''u1'')) (conversations chats)) = 2"
    by (simp add: chats_def)
  have refused: "conversations_route demo_env (frozen 5000) chats None
      = Inl (HTTPException 401 ''Missing Authorization header'')"
    using conversations_scoped_sorted [where E = demo_env and rt = "frozen 5000" and h = None
        and db = chats] none
    by blast
  from conversations_scoped_sorted [where E = demo_env and rt = "frozen 5000" and h = ?h
      and db = chats] some ids
  obtain uid items where served:
    "map_of ?user ''user_id'' = Some uid"
    "conversations_route demo_env (frozen 5000) chats ?h
       = Inr [(''success'', PBool True), (''conversations'', PList (map PDict items))]"
    "\<forall>it \<in> set items. map_of it ''user_id'' = Some uid"
    "sorted_wrt (\<lambda>a b. time_key ''updated_at'' b \<le> time_key ''updated_at'' a) items"
    "length items = length (filter (\<lambda>d. map_of d ''user_id'' = Some uid) (conversations chats))"
    by blast
  from served(1) have uid: "uid = PStr ''u1''" by simp
  have len: "length items = 2"
    using served(5) two unfolding uid by simp
  note scoped = served(2-4) [unfolded uid]
  from scoped len refused show ?thesis by blast
qed

section \<open>Verifying a challenge\<close>

lemma set_fields_two:
  "set_fields [(a, x), (b, y)] d = AList.update b y (AList.update a x d)"
  by (simp add: set_fields_def)

lemma map_of_verified:
  "map_of (set_fields [(''is_verified'', PBool True), (''updated_at'', PTime t)] u) k =
     (if k = ''updated_at'' then Some (PTime t)
      else if k = ''is_verified'' then Some (PBool True)
      else map_of u k)"
  by (simp add: set_fields_two update_conv')


lemma find_one_update_one_None:
  "find_one coll k v = None \<Longrightarrow> update_one coll k v ch = coll"
  by (induction coll) (auto simp: find_one_def)

lemma set_update_one:
  "u' \<in> set (update_one coll k v ch) \<Longrightarrow> u' \<in> set coll \<or> (\<exists>u \<in> set coll. u' = set_fields ch u)"
  by (induction coll) (auto split: if_splits)

lemma update_one_covers:
  "u \<in> set coll \<Longrightarrow>
     u \<in> set (update_one coll k v ch) \<or> set_fields ch u \<in> set (update_one coll k v ch)"
  by (induction coll) auto



lemma succeeds_Inr: "succeeds r \<longleftrightarrow> (\<exists>x. r = Inr x)"
  by (cases r) (simp_all add: succeeds_def)




text \<open>Every store the endpoints produce satisfies \<open>store_inv\<close>.\<close>

lemma store_inv_issue:
  assumes "store_inv db" "u \<in> set (users db)" "map_of u ''email'' = Some (PStr a)"
  shows "store_inv (db\<lparr>otp_codes := insert_one (otp_codes db) i (otp_doc E a s t1 t2)\<rparr>)"
  using assms by (auto simp: store_inv_def insert_one_def otp_doc_def split: option.splits)

lemma store_inv_update:
  assumes "store_inv db"
  shows "store_inv (db\<lparr>users := update_one (users db) ''email'' v
                          [(''is_verified'', PBool True), (''updated_at'', PTime t)]\<rparr>)"
proof -
  let ?ch = "[(''is_verified'', PBool True), (''updated_at'', PTime t)]"
  let ?us = "update_one (users db) ''email'' v ?ch"
  have fields: "map_of u' ''_id'' \<noteq> None \<and> map_of u' ''name'' \<noteq> None" if "u' \<in> set ?us" for u'
  proof -
    from set_update_one [OF that] consider "u' \<in> set (users db)"
      | u where "u \<in> set (users db)" "u' = set_fields ?ch u"
      by blast
    then show ?thesis
    proof cases
      case 1
      with assms show ?thesis by (simp add: store_inv_def)
    next
      case 2
      with assms show ?thesis by (simp add: store_inv_def map_of_verified)
    qed
  qed
  have owner: "\<exists>u' \<in> set ?us. map_of u' ''email'' = Some a"
    if "c \<in> set (otp_codes db)" "map_of c ''email'' = Some a" for c a
  proof -
    from assms that obtain u where u: "u \<in> set (users db)" "map_of u ''email'' = Some a"
      unfolding store_inv_def by fastforce
    from update_one_covers [OF u(1), of "''email''" v ?ch]
    show ?thesis
    proof
      assume "u \<in> set ?us"
      with u(2) show ?thesis by blast
    next
      assume "set_fields ?ch u \<in> set ?us"
      moreover have "map_of (set_fields ?ch u) ''email'' = Some a"
        using u(2) by (simp add: map_of_verified)
      ultimately show ?thesis by blast
    qed
  qed
  show ?thesis
    unfolding store_inv_def using fields owner by (auto split: option.splits)
qed

lemma store_inv_signup: "store_inv db \<Longrightarrow> store_inv (snd (signup E rt db sb))"
  by (auto simp: signup_def Let_def store_inv_def insert_one_def otp_doc_def split: option.splits)

lemma store_inv_login: "store_inv db \<Longrightarrow> store_inv (snd (login E rt db lb))"
proof -
  assume inv: "store_inv db"
  have "snd (login E rt db lb) = db \<or>
      (\<exists>u. find_one (users db) ''email'' (PStr (LoginBody.email lb)) = Some u \<and>
           snd (login E rt db lb) = db\<lparr>otp_codes := insert_one (otp_codes db) (oid rt 0)
             (otp_doc E (LoginBody.email lb) (salt rt 0) (now rt 0) (now rt 1))\<rparr>)"
    by (auto simp: login_def split: option.splits sum.splits prod.splits)
  then show ?thesis
  proof
    assume "snd (login E rt db lb) = db"
    with inv show ?thesis by simp
  next
    assume "\<exists>u. find_one (users db) ''email'' (PStr (LoginBody.email lb)) = Some u \<and>
           snd (login E rt db lb) = db\<lparr>otp_codes := insert_one (otp_codes db) (oid rt 0)
             (otp_doc E (LoginBody.email lb) (salt rt 0) (now rt 0) (now rt 1))\<rparr>"
    then obtain u where u: "find_one (users db) ''email'' (PStr (LoginBody.email lb)) = Some u"
      and eq: "snd (login E rt db lb) = db\<lparr>otp_codes := insert_one (otp_codes db) (oid rt 0)
             (otp_doc E (LoginBody.email lb) (salt rt 0) (now rt 0) (now rt 1))\<rparr>"
      by blast
    from find_one_SomeD [OF u] have "u \<in> set (users db)"
      "map_of u ''email'' = Some (PStr (LoginBody.email lb))" by simp_all
    from store_inv_issue [OF inv this] show ?thesis unfolding eq .
  qed
qed

lemma store_inv_resend_otp: "store_inv db \<Longrightarrow> store_inv (snd (resend_otp E rt db rb))"
proof -
  assume inv: "store_inv db"
  show ?thesis
  proof (cases "find_one (users db) ''email'' (PStr (ResendOtpBody.email rb))")
    case None
    with inv show ?thesis by (simp add: resend_otp_def)
  next
    case (Some u)
    from find_one_SomeD [OF Some] have "u \<in> set (users db)"
      "map_of u ''email'' = Some (PStr (ResendOtpBody.email rb))" by simp_all
    from store_inv_issue [OF inv this] inv Some show ?thesis
      by (simp add: resend_otp_def Let_def)
  qed
qed

lemma store_inv_verify_otp: "store_inv db \<Longrightarrow> store_inv (snd (verify_otp E rt db vb))"
proof -
  assume inv: "store_inv db"
  have "snd (verify_otp E rt db vb) = db \<or>
      snd (verify_otp E rt db vb) = db\<lparr>users := update_one (users db) ''email''
         (PStr (VerifyOtpBody.email vb))
         [(''is_verified'', PBool True), (''updated_at'', PTime (now rt 1))]\<rparr>"
    by (auto simp: verify_otp_def Let_def
        split: option.splits sum.splits prod.splits bool.splits)
  with inv store_inv_update [OF inv] show ?thesis by auto
qed

lemma reachable_store_inv: "reachable E db \<Longrightarrow> store_inv db"
proof (induction rule: reachable.induct)
  case (initial cs)
  show ?case by (simp add: store_inv_def)
next
  case (by_signup db rt sb)
  then show ?case by (simp add: store_inv_signup)
next
  case (by_login db rt lb)
  then show ?case by (simp add: store_inv_login)
next
  case (by_verify_otp db rt vb)
  then show ?case by (simp add: store_inv_verify_otp)
next
  case (by_resend_otp db rt rb)
  then show ?case by (simp add: store_inv_resend_otp)
qed




end
